theory Spec2Isabelle
  imports Complex_Main "HOL-Library.Word"
begin

section \<open>Python values handled by the sample fields\<close>

text \<open>
  The module \<^verbatim>\<open>fiftyone/core/fields.py\<close> is dynamically typed: every method takes an
  arbitrary Python object and branches on its run-time class. The values are therefore
  embedded in one datatype, with one constructor per class the module tests for.

  A Python number used in a comparison is represented by its exact value: a rational, one of
  the two infinities, or not-a-number.
\<close>

datatype pyfloat = NaN | NegInf | FNum rat | PosInf

type_synonym byte = "8 word"

text \<open>
  A numeric \<^verbatim>\<open>numpy.ndarray\<close>: its shape and its elements in row-major order. All
  elements of an array have one element type, so the data is either a list of integers or a
  list of floats.
\<close>

datatype npdata = IntData "int list" | FloatData "pyfloat list"

datatype ndarray = NDArray (shape: "nat list") (data: npdata)

definition ndim :: "ndarray \<Rightarrow> nat" where
  "ndim a = length (shape a)"

text \<open>
  The field classes of the module. A list or dict field carries its optional element field;
  a float field carries its optional bounds.
\<close>

datatype field =
    BooleanField
  | IntField
  | FloatField "pyfloat option" "pyfloat option"
  | StringField
  | ListField "field option"
  | DictField "field option"
  | VectorField
  | ArrayField
  | ImageLabelsField
  | EmbeddedDocumentField string

text \<open>
  The type parameter \<open>'l\<close> is the content of an \<^verbatim>\<open>eta.core.image.ImageLabels\<close> object,
  which belongs to another library. \<open>PBinary\<close> is \<^verbatim>\<open>bson.binary.Binary\<close>, a subclass of
  \<^verbatim>\<open>bytes\<close>; \<open>PBytes\<close> is a plain \<^verbatim>\<open>bytes\<close> object. \<open>PField\<close> is an instance of one of
  the field classes above.
\<close>

datatype 'l pyval =
    PNone
  | PBool bool
  | PInt int
  | PFloat pyfloat
  | PStr string
  | PBytes "byte list"
  | PBinary "byte list"
  | PList "'l pyval list"
  | PTuple "'l pyval list"
  | PDict "('l pyval \<times> 'l pyval) list"
  | PArray ndarray
  | PImageLabels 'l
  | PField field

text \<open>
  Exceptions. \<open>ValidationError\<close> is what \<^verbatim>\<open>self.error(message)\<close> of the underlying
  mongoengine field raises; it carries the message.
\<close>

datatype pyexn =
    ValidationError string
  | ValueError
  | TypeError
  | OverflowError
  | AttributeError

text \<open>The \<^verbatim>\<open>isinstance\<close> tests of the module.\<close>

fun isinstance_ndarray :: "'l pyval \<Rightarrow> bool" where
  "isinstance_ndarray (PArray a) = True"
| "isinstance_ndarray v = False"

fun isinstance_list_tuple :: "'l pyval \<Rightarrow> bool" where
  "isinstance_list_tuple (PList xs) = True"
| "isinstance_list_tuple (PTuple xs) = True"
| "isinstance_list_tuple v = False"

fun isinstance_Binary :: "'l pyval \<Rightarrow> bool" where
  "isinstance_Binary (PBinary bs) = True"
| "isinstance_Binary v = False"

fun isinstance_dict :: "'l pyval \<Rightarrow> bool" where
  "isinstance_dict (PDict kvs) = True"
| "isinstance_dict v = False"

fun isinstance_ImageLabels :: "'l pyval \<Rightarrow> bool" where
  "isinstance_ImageLabels (PImageLabels l) = True"
| "isinstance_ImageLabels v = False"

fun isinstance_Field :: "'l pyval \<Rightarrow> bool" where
  "isinstance_Field (PField f) = True"
| "isinstance_Field v = False"

fun is_None :: "'l pyval \<Rightarrow> bool" where
  "is_None PNone = True"
| "is_None v = False"


section \<open>Numbers\<close>

text \<open>
  Python's comparisons \<^verbatim>\<open><\<close> and \<^verbatim>\<open><=\<close> on numbers: exact on finite values,
  and false as soon as one side is not-a-number.
\<close>

fun pyfloat_lt :: "pyfloat \<Rightarrow> pyfloat \<Rightarrow> bool" where
  "pyfloat_lt NaN y = False"
| "pyfloat_lt x NaN = False"
| "pyfloat_lt x NegInf = False"
| "pyfloat_lt NegInf y = True"
| "pyfloat_lt PosInf y = False"
| "pyfloat_lt x PosInf = True"
| "pyfloat_lt (FNum p) (FNum q) = (p < q)"

definition pyfloat_le :: "pyfloat \<Rightarrow> pyfloat \<Rightarrow> bool" where
  "pyfloat_le x y = (x \<noteq> NaN \<and> y \<noteq> NaN \<and> (x = y \<or> pyfloat_lt x y))"

text \<open>The number of binary digits of a positive integer (\<^verbatim>\<open>int.bit_length\<close>).\<close>

function bit_length :: "int \<Rightarrow> nat" where
  "bit_length n = (if n \<le> 0 then 0 else Suc (bit_length (n div 2)))"
  by pat_completeness auto
termination
  by (relation "measure nat") auto

declare bit_length.simps [simp del]

text \<open>
  The conversion of a 64-bit integer to a 64-bit float, as numpy does it when it stores an
  integer in a float array: the nearest number with a significand of 53 binary digits, a
  tie going to the even significand. An integer of at most 53 digits is kept as it is.
\<close>

definition np_float64_of_int :: "int \<Rightarrow> rat" where
  "np_float64_of_int n =
     (let m = \<bar>n\<bar>;
          e = bit_length m - 53;
          q = m div 2 ^ e;
          r = m mod 2 ^ e;
          q' = (if 2 * r > 2 ^ e \<or> (2 * r = 2 ^ e \<and> odd q) then q + 1 else q)
      in of_int (sgn n * (q' * 2 ^ e)))"

text \<open>The value of a Python number, whether it is an \<^verbatim>\<open>int\<close> or a \<^verbatim>\<open>float\<close>.\<close>

fun number_value :: "'l pyval \<Rightarrow> pyfloat" where
  "number_value (PInt n) = FNum (of_int n)"
| "number_value (PFloat x) = x"
| "number_value v = NaN"


section \<open>The part of numpy the vector field calls\<close>

text \<open>
  \<^verbatim>\<open>numpy\<close> is a library outside the repository. The model covers what it does on
  sequences of Python integers (within the 64-bit range) and floats, on such scalars and on
  arrays; what it does with any other value (nested or ragged sequences, elements that are
  not numbers, larger integers) is the parameter \<open>np_other\<close> of \<open>np_asarray\<close>.
\<close>

fun is_py_int64 :: "'l pyval \<Rightarrow> bool" where
  "is_py_int64 (PInt n) = (- (2 ^ 63) \<le> n \<and> n < 2 ^ 63)"
| "is_py_int64 v = False"

fun is_py_float :: "'l pyval \<Rightarrow> bool" where
  "is_py_float (PFloat x) = True"
| "is_py_float v = False"

definition numeric_seq :: "'l pyval list \<Rightarrow> bool" where
  "numeric_seq xs = list_all (\<lambda>x. is_py_int64 x \<or> is_py_float x) xs"

fun the_int :: "'l pyval \<Rightarrow> int" where
  "the_int (PInt n) = n"
| "the_int v = 0"

fun to_float64 :: "'l pyval \<Rightarrow> pyfloat" where
  "to_float64 (PInt n) = FNum (np_float64_of_int n)"
| "to_float64 (PFloat x) = x"
| "to_float64 v = NaN"

text \<open>
  The array numpy builds from a flat sequence of numbers. All elements get one element type:
  integers stay integers when every element is an integer; as soon as one element is a float
  (or the sequence is empty) the array is a float array and every integer is converted.
\<close>

definition np_array_of_seq :: "'l pyval list \<Rightarrow> ndarray" where
  "np_array_of_seq xs =
     (if xs \<noteq> [] \<and> list_all is_py_int64 xs
      then NDArray [length xs] (IntData (map the_int xs))
      else NDArray [length xs] (FloatData (map to_float64 xs)))"

definition np_asarray :: "('l pyval \<Rightarrow> pyexn + ndarray) \<Rightarrow> 'l pyval \<Rightarrow> pyexn + ndarray" where
  "np_asarray np_other v =
     (case v of
        PArray a \<Rightarrow> Inr a
      | PList xs \<Rightarrow> (if numeric_seq xs then Inr (np_array_of_seq xs) else np_other v)
      | PTuple xs \<Rightarrow> (if numeric_seq xs then Inr (np_array_of_seq xs) else np_other v)
      | PInt n \<Rightarrow> (if is_py_int64 v then Inr (NDArray [] (IntData [n])) else np_other v)
      | PFloat x \<Rightarrow> Inr (NDArray [] (FloatData [x]))
      | _ \<Rightarrow> np_other v)"

text \<open>The elements of an array as Python scalars, in row-major order.\<close>

fun items :: "npdata \<Rightarrow> 'l pyval list" where
  "items (IntData ns) = map PInt ns"
| "items (FloatData xs) = map PFloat xs"

text \<open>
  \<^verbatim>\<open>ndarray.tolist()\<close>: the scalar itself for an array without dimensions, otherwise a
  list with one entry per index of the first dimension, each the nesting of its slice.
\<close>

fun nest :: "nat list \<Rightarrow> 'l pyval list \<Rightarrow> 'l pyval" where
  "nest [] xs = (case xs of [] \<Rightarrow> PNone | x # _ \<Rightarrow> x)"
| "nest (n # ns) xs =
     PList (map (\<lambda>i. nest ns (take (prod_list ns) (drop (i * prod_list ns) xs))) [0..<n])"

definition ndarray_tolist :: "ndarray \<Rightarrow> 'l pyval" where
  "ndarray_tolist a = nest (shape a) (items (data a))"

text \<open>
  An array is well formed when it has as many elements as its shape says and its integers
  are 64-bit integers.
\<close>

definition wf_ndarray :: "ndarray \<Rightarrow> bool" where
  "wf_ndarray a =
     (case data a of
        IntData ns \<Rightarrow>
          length ns = prod_list (shape a) \<and> list_all (\<lambda>n. - (2 ^ 63) \<le> n \<and> n < 2 ^ 63) ns
      | FloatData xs \<Rightarrow> length xs = prod_list (shape a))"

text \<open>The values held by an array.\<close>

fun array_values :: "ndarray \<Rightarrow> pyfloat list" where
  "array_values (NDArray sh (IntData ns)) = map (\<lambda>n. FNum (of_int n)) ns"
| "array_values (NDArray sh (FloatData xs)) = xs"


section \<open>FloatField\<close>

text \<open>
  \<^verbatim>\<open>"%s could not be converted to float" % value\<close>: a tuple on the right of \<^verbatim>\<open>%\<close> is
  the argument list of the format, so only a tuple of length one can be formatted.
  \<open>py_str\<close> is Python's \<^verbatim>\<open>str\<close>.
\<close>

definition could_not_convert :: "('l pyval \<Rightarrow> string) \<Rightarrow> 'l pyval \<Rightarrow> pyexn" where
  "could_not_convert py_str v =
     (case v of
        PTuple [x] \<Rightarrow> ValidationError (py_str x @ '' could not be converted to float'')
      | PTuple xs \<Rightarrow> TypeError
      | _ \<Rightarrow> ValidationError (py_str v @ '' could not be converted to float''))"

text \<open>
  \<open>py_float\<close> is Python's built-in \<^verbatim>\<open>float\<close>, which returns the number or raises;
  \<open>min_value\<close> and \<open>max_value\<close> are the attributes of the field.
\<close>

definition FloatField_validate ::
  "('l pyval \<Rightarrow> pyexn + pyfloat) \<Rightarrow> ('l pyval \<Rightarrow> string) \<Rightarrow>
   pyfloat option \<Rightarrow> pyfloat option \<Rightarrow> 'l pyval \<Rightarrow> pyexn + unit" where
  "FloatField_validate py_float py_str min_value max_value v =
     (case py_float v of
        Inl OverflowError \<Rightarrow>
          Inl (ValidationError ''The value is too large to be converted to float'')
      | Inl TypeError \<Rightarrow> Inl (could_not_convert py_str v)
      | Inl ValueError \<Rightarrow> Inl (could_not_convert py_str v)
      | Inl e \<Rightarrow> Inl e
      | Inr x \<Rightarrow>
          (if (case min_value of None \<Rightarrow> False | Some lo \<Rightarrow> pyfloat_lt x lo)
           then Inl (ValidationError ''Float value is too small'')
           else if (case max_value of None \<Rightarrow> False | Some hi \<Rightarrow> pyfloat_lt hi x)
           then Inl (ValidationError ''Float value is too large'')
           else Inr ()))"


section \<open>ListField and DictField\<close>

text \<open>
  The constructors check their \<^verbatim>\<open>field\<close> argument and then call the constructor of the
  mongoengine base class, \<open>super_init\<close>, with the argument and the keyword arguments. It
  returns the exception it raises, if any.
\<close>

fun as_field :: "'l pyval \<Rightarrow> field option" where
  "as_field (PField f) = Some f"
| "as_field v = None"

definition ListField_init ::
  "('l pyval \<Rightarrow> 'kw \<Rightarrow> pyexn option) \<Rightarrow> 'l pyval \<Rightarrow> 'kw \<Rightarrow> pyexn + field" where
  "ListField_init super_init fld kwargs =
     (if \<not> is_None fld \<and> \<not> isinstance_Field fld then Inl ValueError
      else (case super_init fld kwargs of
              Some e \<Rightarrow> Inl e
            | None \<Rightarrow> Inr (ListField (as_field fld))))"

definition DictField_init ::
  "('l pyval \<Rightarrow> 'kw \<Rightarrow> pyexn option) \<Rightarrow> 'l pyval \<Rightarrow> 'kw \<Rightarrow> pyexn + field" where
  "DictField_init super_init fld kwargs =
     (if \<not> is_None fld \<and> \<not> isinstance_Field fld then Inl ValueError
      else (case super_init fld kwargs of
              Some e \<Rightarrow> Inl e
            | None \<Rightarrow> Inr (DictField (as_field fld))))"


section \<open>VectorField\<close>

definition VectorField_to_mongo ::
  "('l pyval \<Rightarrow> pyexn + ndarray) \<Rightarrow> 'l pyval \<Rightarrow> pyexn + 'l pyval" where
  "VectorField_to_mongo np_other v =
     (if is_None v then Inr PNone
      else (case np_asarray np_other v of
              Inl e \<Rightarrow> Inl e
            | Inr a \<Rightarrow> Inr (ndarray_tolist a)))"

definition VectorField_to_python ::
  "('l pyval \<Rightarrow> pyexn + ndarray) \<Rightarrow> 'l pyval \<Rightarrow> pyexn + 'l pyval" where
  "VectorField_to_python np_other v =
     (if is_None v \<or> isinstance_ndarray v then Inr v
      else (case np_asarray np_other v of
              Inl e \<Rightarrow> Inl e
            | Inr a \<Rightarrow> Inr (PArray a)))"

text \<open>
  \<^verbatim>\<open>validate\<close> returns nothing when the value is accepted (\<open>Inr ()\<close>) and raises a
  validation error otherwise.
\<close>

definition VectorField_validate :: "'l pyval \<Rightarrow> pyexn + unit" where
  "VectorField_validate v =
     (case v of
        PArray a \<Rightarrow>
          (if ndim a > 1
           then Inl (ValidationError ''Only 1D arrays may be used in a vector field'')
           else Inr ())
      | _ \<Rightarrow>
          (if \<not> isinstance_list_tuple v
           then Inl (ValidationError
                  ''Only numpy arrays, lists, and tuples may be used in a vector field'')
           else Inr ()))"


section \<open>ArrayField\<close>

text \<open>
  \<open>serialize_numpy_array\<close> and \<open>deserialize_numpy_array\<close> are the two functions of
  \<^verbatim>\<open>fiftyone.core.utils\<close> the field calls: the first turns a value into bytes or raises,
  the second reads bytes back into an array or raises. The base class's \<^verbatim>\<open>to_mongo\<close>
  wraps the bytes in a \<^verbatim>\<open>Binary\<close>. The decoder reads the bytes of its argument, be it a
  \<^verbatim>\<open>Binary\<close> or plain \<^verbatim>\<open>bytes\<close>; any other value has no bytes to read.
\<close>

definition ArrayField_to_mongo ::
  "('l pyval \<Rightarrow> pyexn + byte list) \<Rightarrow> 'l pyval \<Rightarrow> pyexn + 'l pyval" where
  "ArrayField_to_mongo serialize_numpy_array v =
     (if is_None v then Inr PNone
      else (case serialize_numpy_array v of
              Inl e \<Rightarrow> Inl e
            | Inr bytes \<Rightarrow> Inr (PBinary bytes)))"

definition ArrayField_to_python ::
  "(byte list \<Rightarrow> pyexn + ndarray) \<Rightarrow> 'l pyval \<Rightarrow> pyexn + 'l pyval" where
  "ArrayField_to_python deserialize_numpy_array v =
     (if is_None v \<or> isinstance_ndarray v then Inr v
      else (case v of
              PBinary bytes \<Rightarrow> map_sum id PArray (deserialize_numpy_array bytes)
            | PBytes bytes \<Rightarrow> map_sum id PArray (deserialize_numpy_array bytes)
            | _ \<Rightarrow> Inl TypeError))"

definition ArrayField_validate :: "'l pyval \<Rightarrow> pyexn + unit" where
  "ArrayField_validate v =
     (if \<not> (isinstance_ndarray v \<or> isinstance_Binary v)
      then Inl (ValidationError ''Only numpy arrays may be used in an array field'')
      else Inr ())"


section \<open>ImageLabelsField\<close>

text \<open>
  \<open>serialize\<close> is the method of the annotation object that returns its dictionary, and
  \<open>from_dict\<close> the class method that builds an object from a value or raises. Among the
  values of the model only an annotation object has a \<^verbatim>\<open>serialize\<close> attribute.
\<close>

definition ImageLabelsField_to_mongo ::
  "('l \<Rightarrow> ('l pyval \<times> 'l pyval) list) \<Rightarrow> 'l pyval \<Rightarrow> pyexn + 'l pyval" where
  "ImageLabelsField_to_mongo serialize v =
     (if is_None v then Inr PNone
      else (case v of
              PImageLabels l \<Rightarrow> Inr (PDict (serialize l))
            | _ \<Rightarrow> Inl AttributeError))"

definition ImageLabelsField_to_python ::
  "('l pyval \<Rightarrow> pyexn + 'l) \<Rightarrow> 'l pyval \<Rightarrow> pyexn + 'l pyval" where
  "ImageLabelsField_to_python from_dict v =
     (if is_None v \<or> isinstance_ImageLabels v then Inr v
      else (case from_dict v of
              Inl e \<Rightarrow> Inl e
            | Inr l \<Rightarrow> Inr (PImageLabels l)))"

definition ImageLabelsField_validate :: "'l pyval \<Rightarrow> pyexn + unit" where
  "ImageLabelsField_validate v =
     (if \<not> (isinstance_dict v \<or> isinstance_ImageLabels v)
      then Inl (ValidationError
             ''Only dicts and `eta.core.image.ImageLabels` instances may be used in an ImageLabels field'')
      else Inr ())"


section \<open>Notions used to state the properties\<close>

text \<open>
  The position of a converted float value relative to the bounds of a float field: within
  both bounds that are set, strictly below the lower one, strictly above the upper one.
\<close>

definition within_bounds :: "pyfloat option \<Rightarrow> pyfloat option \<Rightarrow> pyfloat \<Rightarrow> bool" where
  "within_bounds min_value max_value x =
     ((case min_value of None \<Rightarrow> True | Some lo \<Rightarrow> pyfloat_le lo x)
      \<and> (case max_value of None \<Rightarrow> True | Some hi \<Rightarrow> pyfloat_le x hi))"

definition below_min :: "pyfloat option \<Rightarrow> pyfloat \<Rightarrow> bool" where
  "below_min min_value x = (case min_value of None \<Rightarrow> False | Some lo \<Rightarrow> pyfloat_lt x lo)"

definition above_max :: "pyfloat option \<Rightarrow> pyfloat \<Rightarrow> bool" where
  "above_max max_value x = (case max_value of None \<Rightarrow> False | Some hi \<Rightarrow> pyfloat_lt hi x)"

text \<open>
  A float conversion that is defined on numbers only and takes each to its exact value; it
  serves as a concrete \<open>py_float\<close> in examples.
\<close>

definition float_of_number :: "unit pyval \<Rightarrow> pyexn + pyfloat" where
  "float_of_number v =
     (case v of PFloat x \<Rightarrow> Inr x | PInt n \<Rightarrow> Inr (FNum (of_int n)) | _ \<Rightarrow> Inl TypeError)"

text \<open>
  The one-dimensional inputs of a vector field within the modelled part of numpy: a list or
  a tuple of numbers, or a well-formed array with one dimension; and their elements.
\<close>

definition vector_input_1d :: "'l pyval \<Rightarrow> bool" where
  "vector_input_1d v =
     (case v of
        PList xs \<Rightarrow> numeric_seq xs
      | PTuple xs \<Rightarrow> numeric_seq xs
      | PArray a \<Rightarrow> ndim a = 1 \<and> wf_ndarray a
      | _ \<Rightarrow> False)"

fun elements :: "'l pyval \<Rightarrow> 'l pyval list" where
  "elements (PList xs) = xs"
| "elements (PTuple xs) = xs"
| "elements (PArray a) = items (data a)"
| "elements v = []"

text \<open>
  An integer is exactly representable when its conversion to a 64-bit float has the same
  value. A list or tuple converts exactly when it holds integers only (the array is then an
  integer array) or when each of its integers is exactly representable.
\<close>

fun float64_exact :: "'l pyval \<Rightarrow> bool" where
  "float64_exact (PInt n) = (np_float64_of_int n = of_int n)"
| "float64_exact v = True"

definition converts_exactly :: "'l pyval \<Rightarrow> bool" where
  "converts_exactly v =
     (case v of
        PList xs \<Rightarrow> list_all is_py_int64 xs \<or> list_all float64_exact xs
      | PTuple xs \<Rightarrow> list_all is_py_int64 xs \<or> list_all float64_exact xs
      | _ \<Rightarrow> True)"


section \<open>Validation\<close>

text \<open>
  C3. The vector field's validation raises a field error for every array with more than one
  dimension and for every value that is neither an array, a list nor a tuple; it accepts
  every array with one dimension, every list and every tuple.
\<close>

theorem VectorField_validate_accepts_rejects:
  "(1 < ndim a \<longrightarrow>
      VectorField_validate (PArray a :: 'l pyval) =
        Inl (ValidationError ''Only 1D arrays may be used in a vector field''))
   \<and> (\<not> isinstance_ndarray v \<and> \<not> isinstance_list_tuple v \<longrightarrow>
      VectorField_validate (v :: 'l pyval) =
        Inl (ValidationError
          ''Only numpy arrays, lists, and tuples may be used in a vector field''))
   \<and> (ndim b = 1 \<longrightarrow> VectorField_validate (PArray b :: 'l pyval) = Inr ())
   \<and> VectorField_validate (PList xs :: 'l pyval) = Inr ()
   \<and> VectorField_validate (PTuple xs :: 'l pyval) = Inr ()"
  by (cases v) (simp_all add: VectorField_validate_def)

theorem VectorField_validate_accepts_rejects_witness:
  "VectorField_validate (PArray (NDArray [2, 2] (IntData [1, 2, 3, 4])) :: unit pyval) =
     Inl (ValidationError ''Only 1D arrays may be used in a vector field'')
   \<and> VectorField_validate (PStr ''abc'' :: unit pyval) =
     Inl (ValidationError
       ''Only numpy arrays, lists, and tuples may be used in a vector field'')
   \<and> VectorField_validate
       (PArray (NDArray [3] (FloatData [FNum 1, FNum 2, FNum 3])) :: unit pyval) = Inr ()"
  using VectorField_validate_accepts_rejects
    [of "NDArray [2, 2] (IntData [1, 2, 3, 4])" "PStr ''abc'' :: unit pyval"
        "NDArray [3] (FloatData [FNum 1, FNum 2, FNum 3])"]
  by (simp add: ndim_def)

text \<open>
  C10. The vector field's validation accepts every array without dimensions: only arrays
  with more than one dimension are turned away, although the class is described as a
  one-dimensional array field.
\<close>

theorem VectorField_validate_accepts_0d:
  "ndim a = 0 \<Longrightarrow> VectorField_validate (PArray a) = Inr ()"
  by (simp add: VectorField_validate_def)

theorem VectorField_validate_accepts_0d_witness:
  "ndim (NDArray [] (IntData [5])) = 0
   \<and> VectorField_validate (PArray (NDArray [] (IntData [5])) :: unit pyval) = Inr ()"
proof -
  have h: "ndim (NDArray [] (IntData [5])) = 0" by (simp add: ndim_def)
  from h VectorField_validate_accepts_0d [OF h] show ?thesis by blast
qed

text \<open>
  C7. The array field's validation accepts every array and every \<^verbatim>\<open>Binary\<close> blob, and
  raises a field error for every other value (plain \<^verbatim>\<open>bytes\<close> included).
\<close>

theorem ArrayField_validate_accepts_rejects:
  "ArrayField_validate (PArray a :: 'l pyval) = Inr ()
   \<and> ArrayField_validate (PBinary bs :: 'l pyval) = Inr ()
   \<and> (\<not> isinstance_ndarray v \<and> \<not> isinstance_Binary v \<longrightarrow>
        ArrayField_validate (v :: 'l pyval) =
          Inl (ValidationError ''Only numpy arrays may be used in an array field''))"
  by (simp add: ArrayField_validate_def)

theorem ArrayField_validate_accepts_rejects_witness:
  "\<not> isinstance_ndarray (PBytes [1, 2] :: unit pyval)
   \<and> \<not> isinstance_Binary (PBytes [1, 2] :: unit pyval)
   \<and> ArrayField_validate (PBytes [1, 2] :: unit pyval) =
        Inl (ValidationError ''Only numpy arrays may be used in an array field'')
   \<and> ArrayField_validate (PBinary [1, 2] :: unit pyval) = Inr ()"
  using ArrayField_validate_accepts_rejects
    [of "NDArray [1] (IntData [0])" "[1, 2]" "PBytes [1, 2] :: unit pyval"]
  by simp

text \<open>
  C9. The image-labels field's validation accepts every plain dictionary, yet its
  \<^verbatim>\<open>to_mongo\<close> fails on the same value: it calls the value's \<^verbatim>\<open>serialize\<close> method, which
  a dictionary does not have. A value that passes validation need not be convertible.
\<close>

theorem ImageLabelsField_dict_validates_not_converts:
  "ImageLabelsField_validate (PDict kvs) = Inr ()
   \<and> ImageLabelsField_to_mongo serialize (PDict kvs) = Inl AttributeError"
  by (simp add: ImageLabelsField_validate_def ImageLabelsField_to_mongo_def)


section \<open>Float bounds\<close>

lemma pyfloat_le_not_lt: "pyfloat_le x y \<Longrightarrow> \<not> pyfloat_lt y x"
  by (cases x; cases y) (auto simp add: pyfloat_le_def)

lemma FloatField_validate_converted:
  assumes "py_float v = Inr x"
  shows "FloatField_validate py_float py_str min_value max_value v =
           (if below_min min_value x then Inl (ValidationError ''Float value is too small'')
            else if above_max max_value x then Inl (ValidationError ''Float value is too large'')
            else Inr ())"
  using assms by (simp add: FloatField_validate_def below_min_def above_max_def)

text \<open>
  C4. When the input converts to a float: validation succeeds if the float lies within the
  bounds that are set; it fails with the message \<^verbatim>\<open>Float value is too small\<close> if the float
  is strictly below the lower bound; and if the float is strictly above the upper bound it
  fails with a range message, which is \<^verbatim>\<open>Float value is too large\<close> unless the float is
  also below the lower bound (the lower bound is tested first).
\<close>

theorem FloatField_validate_range:
  assumes "py_float v = Inr x"
  shows "(within_bounds min_value max_value x \<longrightarrow>
            FloatField_validate py_float py_str min_value max_value v = Inr ())
       \<and> (below_min min_value x \<longrightarrow>
            FloatField_validate py_float py_str min_value max_value v =
              Inl (ValidationError ''Float value is too small''))
       \<and> (above_max max_value x \<longrightarrow>
            FloatField_validate py_float py_str min_value max_value v =
              Inl (ValidationError
                (if below_min min_value x then ''Float value is too small''
                 else ''Float value is too large'')))"
proof -
  have "\<not> below_min min_value x" and "\<not> above_max max_value x"
    if "within_bounds min_value max_value x"
    using that
    by (auto simp add: within_bounds_def below_min_def above_max_def
        split: option.splits dest: pyfloat_le_not_lt)
  then show ?thesis
    using assms by (simp add: FloatField_validate_converted)
qed

theorem FloatField_validate_range_witness:
  "FloatField_validate float_of_number (\<lambda>v. ''?'') (Some (FNum 0)) (Some (FNum 10)) (PInt 5)
     = Inr ()
   \<and> FloatField_validate float_of_number (\<lambda>v. ''?'') (Some (FNum 0)) (Some (FNum 10))
       (PInt (- 1))
     = Inl (ValidationError ''Float value is too small'')
   \<and> FloatField_validate float_of_number (\<lambda>v. ''?'') (Some (FNum 0)) (Some (FNum 10))
       (PFloat PosInf)
     = Inl (ValidationError ''Float value is too large'')"
proof -
  have c1: "float_of_number (PInt 5) = Inr (FNum 5)"
    and c2: "float_of_number (PInt (- 1)) = Inr (FNum (- 1))"
    and c3: "float_of_number (PFloat PosInf) = Inr PosInf"
    by (simp_all add: float_of_number_def)
  have b1: "within_bounds (Some (FNum 0)) (Some (FNum 10)) (FNum 5)"
    by (simp add: within_bounds_def pyfloat_le_def)
  have b2: "below_min (Some (FNum 0)) (FNum (- 1))"
    by (simp add: below_min_def)
  have b3: "above_max (Some (FNum 10)) PosInf" "\<not> below_min (Some (FNum 0)) PosInf"
    by (simp_all add: above_max_def below_min_def)
  note t = FloatField_validate_range
    [where py_float = float_of_number and py_str = "\<lambda>v. ''?''"
       and min_value = "Some (FNum 0)" and max_value = "Some (FNum 10)"]
  from t [where v = "PInt 5" and x = "FNum 5"] c1 b1
    t [where v = "PInt (- 1)" and x = "FNum (- 1)"] c2 b2
    t [where v = "PFloat PosInf" and x = PosInf] c3 b3
  show ?thesis by simp
qed


section \<open>Construction of list and dict fields\<close>

text \<open>
  C5. A list field or a dict field given an element-type argument that is neither
  \<^verbatim>\<open>None\<close> nor a field instance raises \<^verbatim>\<open>ValueError\<close> at once, whatever the base
  constructor would do. Given \<^verbatim>\<open>None\<close> or a field instance the check passes and the
  field is constructed, as soon as the base constructor accepts the arguments.
\<close>

theorem container_field_init:
  "(\<not> is_None fld \<and> \<not> isinstance_Field fld \<longrightarrow>
      ListField_init super_init fld kwargs = Inl ValueError
      \<and> DictField_init super_init fld kwargs = Inl ValueError)
   \<and> ((is_None fld \<or> isinstance_Field fld) \<and> super_init fld kwargs = None \<longrightarrow>
      ListField_init super_init fld kwargs = Inr (ListField (as_field fld))
      \<and> DictField_init super_init fld kwargs = Inr (DictField (as_field fld)))"
  by (auto simp add: ListField_init_def DictField_init_def)

theorem container_field_init_witness:
  "ListField_init (\<lambda>f k. None) (PStr ''int'' :: unit pyval) () = Inl ValueError
   \<and> DictField_init (\<lambda>f k. None) (PStr ''int'' :: unit pyval) () = Inl ValueError
   \<and> ListField_init (\<lambda>f k. None) (PNone :: unit pyval) () = Inr (ListField None)
   \<and> DictField_init (\<lambda>f k. None) (PField IntField :: unit pyval) ()
       = Inr (DictField (Some IntField))"
  using container_field_init [of "PStr ''int'' :: unit pyval" "\<lambda>f k. None" "()"]
    container_field_init [of "PNone :: unit pyval" "\<lambda>f k. None" "()"]
    container_field_init [of "PField IntField :: unit pyval" "\<lambda>f k. None" "()"]
  by simp


section \<open>Unset values\<close>

text \<open>
  C8. For the vector field, the array field and the image-labels field, \<^verbatim>\<open>to_mongo\<close> and
  \<^verbatim>\<open>to_python\<close> both return \<^verbatim>\<open>None\<close> on \<^verbatim>\<open>None\<close> and raise nothing, so an unset
  value is stored and read back as \<^verbatim>\<open>None\<close>.
\<close>

theorem None_passes_through:
  "VectorField_to_mongo np_other PNone = Inr PNone
   \<and> VectorField_to_python np_other PNone = Inr PNone
   \<and> ArrayField_to_mongo serialize_numpy_array PNone = Inr PNone
   \<and> ArrayField_to_python deserialize_numpy_array PNone = Inr PNone
   \<and> ImageLabelsField_to_mongo serialize PNone = Inr PNone
   \<and> ImageLabelsField_to_python from_dict PNone = Inr PNone"
  by (simp add: VectorField_to_mongo_def VectorField_to_python_def ArrayField_to_mongo_def
      ArrayField_to_python_def ImageLabelsField_to_mongo_def ImageLabelsField_to_python_def)


section \<open>Round trips through external codecs\<close>

text \<open>
  C2. Take an array of rank at least one on which the codec keeps its contract: serializing
  it gives bytes, and deserializing these bytes gives the array back. Then \<^verbatim>\<open>to_mongo\<close>
  followed by \<^verbatim>\<open>to_python\<close> of the array field yields an array with the same shape and
  the same elements.
\<close>

theorem ArrayField_roundtrip:
  assumes "1 \<le> ndim a"
    and "serialize_numpy_array (PArray a) = Inr bytes"
    and "deserialize_numpy_array bytes = Inr a"
  shows "\<exists>stored r.
           ArrayField_to_mongo serialize_numpy_array (PArray a) = Inr stored
         \<and> ArrayField_to_python deserialize_numpy_array stored = Inr (PArray r)
         \<and> shape r = shape a \<and> data r = data a"
  using assms by (simp add: ArrayField_to_mongo_def ArrayField_to_python_def)

theorem ArrayField_roundtrip_witness:
  "\<exists>stored r.
     ArrayField_to_mongo (\<lambda>v. Inr [120, 156])
       (PArray (NDArray [2] (IntData [7, 8])) :: unit pyval) = Inr stored
   \<and> ArrayField_to_python
       (\<lambda>bs. if bs = [120, 156] then Inr (NDArray [2] (IntData [7, 8])) else Inl ValueError)
       stored = Inr (PArray r)
   \<and> shape r = [2] \<and> data r = IntData [7, 8]"
  using ArrayField_roundtrip
    [where a = "NDArray [2] (IntData [7, 8])" and bytes = "[120, 156]"
       and serialize_numpy_array = "\<lambda>v :: unit pyval. Inr [120, 156]"
       and deserialize_numpy_array =
         "\<lambda>bs. if bs = [120, 156] then Inr (NDArray [2] (IntData [7, 8])) else Inl ValueError"]
  by (simp add: ndim_def)

text \<open>
  C6. Take an annotation object for which \<^verbatim>\<open>from_dict\<close> inverts \<^verbatim>\<open>serialize\<close>. Then
  \<^verbatim>\<open>to_mongo\<close> of the image-labels field stores its dictionary, and \<^verbatim>\<open>to_python\<close> of
  that dictionary yields the object again.
\<close>

theorem ImageLabelsField_roundtrip:
  assumes "from_dict (PDict (serialize l)) = Inr l"
  shows "ImageLabelsField_to_mongo serialize (PImageLabels l) = Inr (PDict (serialize l))
       \<and> ImageLabelsField_to_python from_dict (PDict (serialize l)) = Inr (PImageLabels l)"
  using assms by (simp add: ImageLabelsField_to_mongo_def ImageLabelsField_to_python_def)

theorem ImageLabelsField_roundtrip_witness:
  "ImageLabelsField_to_mongo (\<lambda>n. [(PStr ''filename'', PInt (int n))]) (PImageLabels (3 :: nat))
     = Inr (PDict [(PStr ''filename'', PInt 3)])
   \<and> ImageLabelsField_to_python
       (\<lambda>v. if v = PDict [(PStr ''filename'', PInt 3)] then Inr 3 else Inl ValueError)
       (PDict [(PStr ''filename'', PInt 3)])
     = Inr (PImageLabels (3 :: nat))"
  using ImageLabelsField_roundtrip
    [where l = "3 :: nat" and serialize = "\<lambda>n. [(PStr ''filename'', PInt (int n))]"
       and from_dict =
         "\<lambda>v. if v = PDict [(PStr ''filename'', PInt 3)] then Inr 3 else Inl ValueError"]
  by simp


section \<open>The vector field's round trip\<close>

lemma bit_length_le: "m < 2 ^ k \<Longrightarrow> bit_length m \<le> k"
proof (induction k arbitrary: m)
  case 0
  then show ?case by (simp add: bit_length.simps)
next
  case (Suc k)
  show ?case
  proof (cases "m \<le> 0")
    case True
    then show ?thesis by (simp add: bit_length.simps)
  next
    case False
    from Suc.prems have "m div 2 < 2 ^ k" by simp
    then have "bit_length (m div 2) \<le> k" by (rule Suc.IH)
    with False show ?thesis by (subst bit_length.simps) simp
  qed
qed

lemma np_float64_of_int_small:
  assumes "\<bar>n\<bar> < 2 ^ 53"
  shows "np_float64_of_int n = of_int n"
proof -
  from assms have "bit_length \<bar>n\<bar> \<le> 53" by (rule bit_length_le)
  then have e: "bit_length \<bar>n\<bar> - 53 = 0" by simp
  have "sgn n * \<bar>n\<bar> = n" by (rule sgn_mult_abs)
  then show ?thesis
    unfolding np_float64_of_int_def Let_def e
    by (simp flip: of_int_abs of_int_mult add: mult.commute)
qed

lemma np_float64_of_int_rounds: "np_float64_of_int 9007199254740993 = 9007199254740992"
  by code_simp

lemma number_value_the_int: "is_py_int64 x \<Longrightarrow> FNum (of_int (the_int x)) = number_value x"
  by (cases x) simp_all

lemma to_float64_exact:
  "is_py_int64 x \<or> is_py_float x \<Longrightarrow> float64_exact x \<Longrightarrow> to_float64 x = number_value x"
  by (cases x) simp_all

lemma array_values_np_array_of_seq:
  assumes "numeric_seq xs"
    and "list_all is_py_int64 xs \<or> list_all float64_exact xs"
  shows "array_values (np_array_of_seq xs) = map number_value xs"
proof (cases "xs \<noteq> [] \<and> list_all is_py_int64 xs")
  case True
  then have "map (\<lambda>x. FNum (of_int (the_int x))) xs = map number_value xs"
    by (simp add: list_all_iff number_value_the_int)
  with True show ?thesis
    by (simp add: np_array_of_seq_def comp_def)
next
  case False
  with assms(2) have "xs = [] \<or> list_all float64_exact xs" by blast
  then have "map to_float64 xs = map number_value xs"
    using assms(1) by (auto simp add: numeric_seq_def list_all_iff to_float64_exact)
  moreover have "np_array_of_seq xs = NDArray [length xs] (FloatData (map to_float64 xs))"
    using False unfolding np_array_of_seq_def by (rule if_not_P)
  ultimately show ?thesis by simp
qed

lemma shape_np_array_of_seq: "shape (np_array_of_seq xs) = [length xs]"
  by (simp add: np_array_of_seq_def)

lemma items_np_array_of_seq_numeric:
  "numeric_seq xs \<Longrightarrow> numeric_seq (items (data (np_array_of_seq xs)))"
  by (auto simp add: np_array_of_seq_def numeric_seq_def list_all_iff
      elim!: is_py_int64.elims)

lemma length_items_np_array_of_seq:
  "length (items (data (np_array_of_seq xs)) :: 'l pyval list) = length (xs :: 'l pyval list)"
  by (simp add: np_array_of_seq_def)

lemma items_exact:
  "numeric_seq (items d :: 'l pyval list) \<Longrightarrow>
     list_all is_py_int64 (items d :: 'l pyval list)
     \<or> list_all float64_exact (items d :: 'l pyval list)"
  by (cases d) (auto simp add: numeric_seq_def list_all_iff)

lemma number_value_items: "map number_value (items (data a)) = array_values a"
  by (cases a; cases "data a") (simp_all add: comp_def)

lemma nest_flat: "length xs = n \<Longrightarrow> nest [n] xs = PList xs"
proof -
  assume len: "length xs = n"
  have "map (\<lambda>i. case take 1 (drop i xs) of [] \<Rightarrow> PNone | x # _ \<Rightarrow> x) [0..<length xs] = xs"
  proof (rule nth_equalityI)
    show "length (map (\<lambda>i. case take 1 (drop i xs) of [] \<Rightarrow> PNone | x # _ \<Rightarrow> x) [0..<length xs])
            = length xs"
      by simp
  next
    fix i
    assume "i < length (map (\<lambda>i. case take 1 (drop i xs) of [] \<Rightarrow> PNone | x # _ \<Rightarrow> x)
                          [0..<length xs])"
    then have i: "i < length xs" by simp
    then have "drop i xs = xs ! i # drop (Suc i) xs"
      by (simp add: Cons_nth_drop_Suc)
    with i show "map (\<lambda>i. case take 1 (drop i xs) of [] \<Rightarrow> PNone | x # _ \<Rightarrow> x)
                   [0..<length xs] ! i = xs ! i"
      by simp
  qed
  with len show ?thesis by simp
qed

lemma wf_ndarray_items:
  "wf_ndarray a \<Longrightarrow>
     numeric_seq (items (data a) :: 'l pyval list)
     \<and> length (items (data a) :: 'l pyval list) = prod_list (shape a)"
  by (cases "data a") (auto simp add: wf_ndarray_def numeric_seq_def list_all_iff)

lemma ndarray_tolist_1d:
  assumes "shape a = [n]" and "length (items (data a) :: 'l pyval list) = n"
  shows "(ndarray_tolist a :: 'l pyval) = PList (items (data a))"
  using assms by (simp add: ndarray_tolist_def nest_flat del: nest.simps)

text \<open>Writing and reading back an array built from a flat sequence of numbers.\<close>

lemma VectorField_store_load_array:
  fixes a :: ndarray and np_other :: "'l pyval \<Rightarrow> pyexn + ndarray"
  assumes sh: "shape a = [n]"
    and num: "numeric_seq (items (data a) :: 'l pyval list)"
    and len: "length (items (data a) :: 'l pyval list) = n"
  shows "VectorField_to_python np_other (ndarray_tolist a) =
           Inr (PArray (np_array_of_seq (items (data a) :: 'l pyval list)))
       \<and> shape (np_array_of_seq (items (data a) :: 'l pyval list)) = [n]
       \<and> array_values (np_array_of_seq (items (data a) :: 'l pyval list)) = array_values a"
proof -
  have "(ndarray_tolist a :: 'l pyval) = PList (items (data a))"
    using sh len by (rule ndarray_tolist_1d)
  then have "VectorField_to_python np_other (ndarray_tolist a) =
      Inr (PArray (np_array_of_seq (items (data a) :: 'l pyval list)))"
    using num by (simp add: VectorField_to_python_def np_asarray_def)
  moreover have "shape (np_array_of_seq (items (data a) :: 'l pyval list)) = [n]"
    using len by (simp add: shape_np_array_of_seq)
  moreover have "array_values (np_array_of_seq (items (data a) :: 'l pyval list)) = array_values a"
    using array_values_np_array_of_seq [OF num items_exact [OF num]]
    by (simp add: number_value_items)
  ultimately show ?thesis by simp
qed

text \<open>
  A list that mixes integers and floats becomes a float array, and an integer that has no
  exact 64-bit float comes back changed: \<^verbatim>\<open>2**53 + 1\<close> is stored and read back as
  \<^verbatim>\<open>2**53\<close>. The claim C1 as it stands fails on this input.
\<close>

theorem VectorField_roundtrip_counterexample:
  "vector_input_1d (PList [PInt 9007199254740993, PFloat (FNum (1 / 2))] :: unit pyval)
   \<and> VectorField_to_mongo (\<lambda>v. Inl TypeError)
        (PList [PInt 9007199254740993, PFloat (FNum (1 / 2))] :: unit pyval)
      = Inr (PList [PFloat (FNum 9007199254740992), PFloat (FNum (1 / 2))])
   \<and> VectorField_to_python (\<lambda>v. Inl TypeError)
        (PList [PFloat (FNum 9007199254740992), PFloat (FNum (1 / 2))] :: unit pyval)
      = Inr (PArray (NDArray [2] (FloatData [FNum 9007199254740992, FNum (1 / 2)])))
   \<and> array_values (NDArray [2] (FloatData [FNum 9007199254740992, FNum (1 / 2)]))
      \<noteq> map number_value
           (elements (PList [PInt 9007199254740993, PFloat (FNum (1 / 2))] :: unit pyval))"
proof (intro conjI)
  show "vector_input_1d (PList [PInt 9007199254740993, PFloat (FNum (1 / 2))] :: unit pyval)"
    by (simp add: vector_input_1d_def numeric_seq_def)
  show "VectorField_to_mongo (\<lambda>v. Inl TypeError)
        (PList [PInt 9007199254740993, PFloat (FNum (1 / 2))] :: unit pyval)
      = Inr (PList [PFloat (FNum 9007199254740992), PFloat (FNum (1 / 2))])"
    by (simp add: VectorField_to_mongo_def np_asarray_def numeric_seq_def np_array_of_seq_def
        ndarray_tolist_def np_float64_of_int_rounds upt_rec)
  show "VectorField_to_python (\<lambda>v. Inl TypeError)
        (PList [PFloat (FNum 9007199254740992), PFloat (FNum (1 / 2))] :: unit pyval)
      = Inr (PArray (NDArray [2] (FloatData [FNum 9007199254740992, FNum (1 / 2)])))"
    by (simp add: VectorField_to_python_def np_asarray_def numeric_seq_def np_array_of_seq_def)
  show "array_values (NDArray [2] (FloatData [FNum 9007199254740992, FNum (1 / 2)]))
      \<noteq> map number_value
           (elements (PList [PInt 9007199254740993, PFloat (FNum (1 / 2))] :: unit pyval))"
    by simp
qed

text \<open>
  C1, amended. For every list or tuple of numbers and every well-formed array with one
  dimension, provided the input converts exactly (it is an array, or holds integers only, or
  each of its integers is exactly representable as a 64-bit float), \<^verbatim>\<open>to_mongo\<close>
  followed by \<^verbatim>\<open>to_python\<close> yields an array with one dimension, as long as the input,
  whose values are the values of the input in the same order.
\<close>

theorem VectorField_roundtrip_exact:
  fixes v :: "'l pyval"
  assumes "vector_input_1d v" and "converts_exactly v"
  shows "\<exists>stored r.
           VectorField_to_mongo np_other v = Inr stored
         \<and> VectorField_to_python np_other stored = Inr (PArray r)
         \<and> shape r = [length (elements v)]
         \<and> array_values r = map number_value (elements v)"
proof -
  have seq: "\<exists>stored r.
           VectorField_to_mongo np_other v = Inr stored
         \<and> VectorField_to_python np_other stored = Inr (PArray r)
         \<and> shape r = [length xs]
         \<and> array_values r = map number_value xs"
    if v: "v = PList xs \<or> v = PTuple xs" and num: "numeric_seq xs"
      and ex: "list_all is_py_int64 xs \<or> list_all float64_exact xs" for xs
  proof -
    let ?a = "np_array_of_seq xs"
    have m: "VectorField_to_mongo np_other v = Inr (ndarray_tolist ?a)"
      using v num by (auto simp add: VectorField_to_mongo_def np_asarray_def)
    have "shape ?a = [length xs]" by (rule shape_np_array_of_seq)
    moreover have "numeric_seq (items (data ?a) :: 'l pyval list)"
      using num by (rule items_np_array_of_seq_numeric)
    moreover have "length (items (data ?a) :: 'l pyval list) = length xs"
      by (rule length_items_np_array_of_seq)
    ultimately have p: "VectorField_to_python np_other (ndarray_tolist ?a) =
           Inr (PArray (np_array_of_seq (items (data ?a) :: 'l pyval list)))
       \<and> shape (np_array_of_seq (items (data ?a) :: 'l pyval list)) = [length xs]
       \<and> array_values (np_array_of_seq (items (data ?a) :: 'l pyval list)) = array_values ?a"
      by (rule VectorField_store_load_array)
    have "array_values ?a = map number_value xs"
      using num ex by (rule array_values_np_array_of_seq)
    with m p show ?thesis by simp
  qed
  show ?thesis
  proof (cases v)
    case (PList xs)
    with assms seq [of xs] show ?thesis
      by (simp add: vector_input_1d_def converts_exactly_def)
  next
    case (PTuple xs)
    with assms seq [of xs] show ?thesis
      by (simp add: vector_input_1d_def converts_exactly_def)
  next
    case (PArray a)
    with assms(1) have nd: "ndim a = 1" and wf: "wf_ndarray a"
      by (simp_all add: vector_input_1d_def)
    from nd obtain n where sh: "shape a = [n]"
      by (auto simp add: ndim_def length_Suc_conv)
    from wf_ndarray_items [where ?'l = 'l, OF wf] sh
    have num: "numeric_seq (items (data a) :: 'l pyval list)"
      and len: "length (items (data a) :: 'l pyval list) = n"
      by simp_all
    have m: "VectorField_to_mongo np_other v = Inr (ndarray_tolist a)"
      using PArray by (simp add: VectorField_to_mongo_def np_asarray_def)
    from VectorField_store_load_array [OF sh num len, of np_other] m PArray len
    show ?thesis by (simp add: number_value_items)
  qed (use assms(1) in \<open>simp_all add: vector_input_1d_def\<close>)
qed


theorem VectorField_roundtrip_exact_witness:
  "\<exists>stored r.
     VectorField_to_mongo (\<lambda>v. Inl TypeError)
       (PTuple [PInt 1, PFloat (FNum (5 / 2)), PInt 3] :: unit pyval) = Inr stored
   \<and> VectorField_to_python (\<lambda>v. Inl TypeError) stored = Inr (PArray r)
   \<and> shape r = [3]
   \<and> array_values r = [FNum 1, FNum (5 / 2), FNum 3]"
proof -
  have small: "np_float64_of_int 1 = 1" "np_float64_of_int 3 = 3"
    by (simp_all add: np_float64_of_int_small)
  have h1: "vector_input_1d (PTuple [PInt 1, PFloat (FNum (5 / 2)), PInt 3] :: unit pyval)"
    by (simp add: vector_input_1d_def numeric_seq_def)
  have h2: "converts_exactly (PTuple [PInt 1, PFloat (FNum (5 / 2)), PInt 3] :: unit pyval)"
    using small by (simp add: converts_exactly_def)
  from VectorField_roundtrip_exact [OF h1 h2, of "\<lambda>v. Inl TypeError"]
  show ?thesis by (simp add: eval_nat_numeral)
qed


end
